theory Spec2Isabelle
  imports Complex_Main "HOL-Library.Sublist" "HOL-Library.Multiset"
begin

section \<open>Python primitives used by the two search engines\<close>

text \<open>
  A Python string is modelled as a list of characters, a character being a Unicode code point
  below 256 (\<open>char\<close> has exactly these); \<open>str.lower\<close>, \<open>str.isspace\<close> and the classes of
  the regular expressions are those of Python 3 on that range.  Text with other code points
  is outside the model's string type.  The scores of the keyword engine, quotients of small
  integers, are modelled by real numbers.  The embedding engine computes with numpy: the
  search takes numpy's four operations as a parameter, see \<open>numpy\<close>, and \<open>f32_numpy\<close> gives them
  for \<open>float32\<close> arrays.
\<close>

datatype error = ZeroDivisionError | TypeError | ValueError | IndexError | JSONDecodeError | OSError

text \<open>\<open>str.lower\<close>: the capitals \<open>A..Z\<close> and the capitals \<open>U+00C0..U+00DE\<close> (without the
  multiplication sign \<open>U+00D7\<close>) are shifted by 32; every other character below 256 is its own
  lower case.\<close>

definition lower_char :: "char \<Rightarrow> char" where
  "lower_char c =
     (if (65 \<le> (of_char c :: nat) \<and> (of_char c :: nat) \<le> 90)
         \<or> (192 \<le> (of_char c :: nat) \<and> (of_char c :: nat) \<le> 222 \<and> (of_char c :: nat) \<noteq> 215)
      then char_of ((of_char c :: nat) + 32) else c)"

definition lower :: "string \<Rightarrow> string" where
  "lower s = map lower_char s"

text \<open>\<open>str.isspace\<close>: tab, newline, vertical tab, form feed, carriage return, the separators
  \<open>U+001C..U+001F\<close>, the blank, the next-line control \<open>U+0085\<close> and the no-break space
  \<open>U+00A0\<close>.\<close>

definition isspace :: "char \<Rightarrow> bool" where
  "isspace c =
     ((9 \<le> (of_char c :: nat) \<and> (of_char c :: nat) \<le> 13)
      \<or> (28 \<le> (of_char c :: nat) \<and> (of_char c :: nat) \<le> 32)
      \<or> (of_char c :: nat) = 133
      \<or> (of_char c :: nat) = 160)"

text \<open>\<open>str.split()\<close> without argument: the maximal runs of non-whitespace characters.
  \<open>split_acc\<close> carries the word being read, reversed.\<close>

fun split_acc :: "string \<Rightarrow> string \<Rightarrow> string list" where
  "split_acc acc [] = (if acc = [] then [] else [rev acc])"
| "split_acc acc (c # cs) =
     (if isspace c then (if acc = [] then split_acc [] cs else rev acc # split_acc [] cs)
      else split_acc (c # acc) cs)"

definition split :: "string \<Rightarrow> string list" where
  "split s = split_acc [] s"

text \<open>\<open>word in text\<close> on strings is the contiguous-substring test.\<close>

definition str_in :: "string \<Rightarrow> string \<Rightarrow> bool" where
  "str_in w t = sublist w t"

text \<open>Float division: Python raises on a zero divisor.\<close>

definition py_div :: "real \<Rightarrow> nat \<Rightarrow> error + real" where
  "py_div x n = (if n = 0 then Inl ZeroDivisionError else Inr (x / real n))"

text \<open>The slice \<open>xs[:k]\<close>: a negative \<open>k\<close> counts from the end.\<close>

definition slice_to :: "int \<Rightarrow> 'a list \<Rightarrow> 'a list" where
  "slice_to k xs =
     (if 0 \<le> k then take (nat k) xs else take (nat (int (length xs) + k)) xs)"

text \<open>The optional \<open>file_type\<close> argument: \<open>if file_type and chunk.file_type != file_type\<close>
  skips a chunk only when the filter is a non-empty string that differs.\<close>

definition skipped :: "string option \<Rightarrow> string \<Rightarrow> bool" where
  "skipped file_type ft =
     (case file_type of None \<Rightarrow> False | Some f \<Rightarrow> f \<noteq> [] \<and> ft \<noteq> f)"

section \<open>The keyword engine (simple\_tpp\_search.py)\<close>

record SearchResult =
  name :: string
  file_path :: string
  line_number :: int
  content :: string
  file_type :: string
  score :: real

text \<open>The haystack \<open>f"{chunk.name} {chunk.content}".lower()\<close>.\<close>

definition haystack :: "SearchResult \<Rightarrow> string" where
  "haystack chunk = lower (SearchResult.name chunk @ '' '' @ content chunk)"

text \<open>The inner loop over the query words, with the running \<open>score\<close> as accumulator.\<close>

fun word_loop :: "SearchResult \<Rightarrow> string list \<Rightarrow> real \<Rightarrow> real" where
  "word_loop chunk [] sc = sc"
| "word_loop chunk (w # ws) sc =
     (if str_in w (haystack chunk)
      then (if str_in w (lower (SearchResult.name chunk))
            then word_loop chunk ws (sc + 1 + 2)
            else word_loop chunk ws (sc + 1))
      else word_loop chunk ws sc)"

definition raw_score :: "string list \<Rightarrow> SearchResult \<Rightarrow> real" where
  "raw_score query_words chunk = word_loop chunk query_words 0"

text \<open>
  The loop over \<open>self.code_chunks\<close>.  It returns the chunk store as the loop leaves it (the
  chunks are mutated in place) together with either the exception that stopped it or the
  \<open>results\<close> list; \<open>results\<close> holds the very chunks of the store, so an entry carries the
  score written in this pass.
\<close>

fun chunk_loop :: "string list \<Rightarrow> string option \<Rightarrow> SearchResult list
    \<Rightarrow> SearchResult list \<times> (error + SearchResult list)" where
  "chunk_loop query_words ftype [] = ([], Inr [])"
| "chunk_loop query_words ftype (chunk # chunks) =
     (if skipped ftype (SearchResult.file_type chunk) then
        (case chunk_loop query_words ftype chunks of (st, r) \<Rightarrow> (chunk # st, r))
      else if raw_score query_words chunk > 0 then
        (case py_div (raw_score query_words chunk) (length query_words) of
           Inl e \<Rightarrow> (chunk # chunks, Inl e)
         | Inr s \<Rightarrow>
             (case chunk_loop query_words ftype chunks of
                (st, r) \<Rightarrow>
                  (chunk\<lparr>SearchResult.score := s\<rparr> # st,
                   (case r of Inl e \<Rightarrow> Inl e | Inr rs \<Rightarrow> Inr (chunk\<lparr>SearchResult.score := s\<rparr> # rs)))))
      else
        (case chunk_loop query_words ftype chunks of (st, r) \<Rightarrow> (chunk # st, r)))"

text \<open>\<open>results.sort(key=lambda x: x.score, reverse=True)\<close>: CPython reverses the list, sorts
  it stably in ascending key order and reverses the outcome.\<close>

definition sort_by_score_reverse :: "SearchResult list \<Rightarrow> SearchResult list" where
  "sort_by_score_reverse results = rev (sort_key SearchResult.score (rev results))"

definition search :: "SearchResult list \<Rightarrow> string \<Rightarrow> string option \<Rightarrow> int
    \<Rightarrow> SearchResult list \<times> (error + SearchResult list)" where
  "search code_chunks query ftype top_k =
     (if code_chunks = [] then ([], Inr [])
      else
        (case chunk_loop (split (lower query)) ftype code_chunks of
           (st, Inl e) \<Rightarrow> (st, Inl e)
         | (st, Inr results) \<Rightarrow> (st, Inr (slice_to top_k (sort_by_score_reverse results)))))"


section \<open>The embedding engine (tpp\_code\_search.py)\<close>

text \<open>
  The value of a numpy scalar: a number, an infinity or NaN.  Comparing two scalars is exact
  (NaN is neither smaller than nor equal to anything, itself included).
\<close>

datatype npfloat = Fin real | PosInf | NegInf | NaN

fun np_lt :: "npfloat \<Rightarrow> npfloat \<Rightarrow> bool" where
  "np_lt NaN _ = False"
| "np_lt _ NaN = False"
| "np_lt (Fin a) (Fin b) = (a < b)"
| "np_lt (Fin a) PosInf = True"
| "np_lt (Fin a) NegInf = False"
| "np_lt PosInf _ = False"
| "np_lt NegInf NegInf = False"
| "np_lt NegInf _ = True"

fun np_eq :: "npfloat \<Rightarrow> npfloat \<Rightarrow> bool" where
  "np_eq NaN _ = False"
| "np_eq _ NaN = False"
| "np_eq a b = (a = b)"

text \<open>
  The search uses four operations of numpy: \<open>np.dot\<close> (which raises when the shapes
  differ), \<open>np.linalg.norm\<close>, and the product and the quotient of two scalars (a quotient
  \<open>0/0\<close> gives NaN with a warning, not an exception).  They are a parameter of the search,
  over vectors of an arbitrary type \<open>'v\<close>.
\<close>

record 'v numpy =
  np_dot :: "'v \<Rightarrow> 'v \<Rightarrow> error + npfloat"
  np_norm :: "'v \<Rightarrow> npfloat"
  np_mul :: "npfloat \<Rightarrow> npfloat \<Rightarrow> npfloat"
  np_div :: "npfloat \<Rightarrow> npfloat \<Rightarrow> npfloat"

record TPPCodeResult =
  name :: string
  file_path :: string
  line_number :: int
  code :: string
  score :: npfloat
  file_type :: string
  category :: string

text \<open>The similarity of lines 361--363: the dot product first, then the two norms, their
  product and the quotient.\<close>

definition similarity_of :: "'v numpy \<Rightarrow> 'v \<Rightarrow> 'v \<Rightarrow> error + npfloat" where
  "similarity_of np query_embedding chunk_embedding =
     (case np_dot np query_embedding chunk_embedding of
        Inl e \<Rightarrow> Inl e
      | Inr d \<Rightarrow>
          Inr (np_div np d
                 (np_mul np (np_norm np query_embedding) (np_norm np chunk_embedding))))"

text \<open>
  The loop over \<open>enumerate(self.embeddings)\<close>; the second list is \<open>self.code_chunks\<close> from
  index \<open>i\<close> on, so \<open>self.code_chunks[i]\<close> raises when it is exhausted.  The similarity is
  computed before the filter is looked at.
\<close>

fun embedding_loop :: "'v numpy \<Rightarrow> 'v \<Rightarrow> string option \<Rightarrow> 'v list \<Rightarrow> TPPCodeResult list
    \<Rightarrow> TPPCodeResult list \<times> (error + (npfloat \<times> TPPCodeResult) list)" where
  "embedding_loop np q ftype [] chunks = (chunks, Inr [])"
| "embedding_loop np q ftype (e # es) chunks =
     (case similarity_of np q e of
        Inl err \<Rightarrow> (chunks, Inl err)
      | Inr similarity \<Rightarrow>
          (case chunks of
             [] \<Rightarrow> ([], Inl IndexError)
           | chunk # rest \<Rightarrow>
               (if skipped ftype (TPPCodeResult.file_type chunk) then
                  (case embedding_loop np q ftype es rest of (st, r) \<Rightarrow> (chunk # st, r))
                else
                  (case embedding_loop np q ftype es rest of
                     (st, r) \<Rightarrow>
                       (chunk\<lparr>TPPCodeResult.score := similarity\<rparr> # st,
                        (case r of
                           Inl err \<Rightarrow> Inl err
                         | Inr scores \<Rightarrow>
                             Inr ((similarity, chunk\<lparr>TPPCodeResult.score := similarity\<rparr>)
                                  # scores)))))))"

text \<open>
  \<open>scores.sort(reverse=True)\<close> compares the tuples \<open>(similarity, chunk)\<close> themselves.  A tuple
  comparison looks for the first position where the two tuples differ (by \<open>==\<close>) and compares
  there with \<open><\<close>.  The dataclass \<open>TPPCodeResult\<close> defines \<open>==\<close>, field by field, and no
  ordering, so \<open><\<close> on two chunks raises \<open>TypeError\<close>.
\<close>

definition chunk_eq :: "TPPCodeResult \<Rightarrow> TPPCodeResult \<Rightarrow> bool" where
  "chunk_eq c1 c2 =
     (TPPCodeResult.name c1 = TPPCodeResult.name c2
      \<and> TPPCodeResult.file_path c1 = TPPCodeResult.file_path c2
      \<and> TPPCodeResult.line_number c1 = TPPCodeResult.line_number c2
      \<and> code c1 = code c2
      \<and> np_eq (TPPCodeResult.score c1) (TPPCodeResult.score c2)
      \<and> TPPCodeResult.file_type c1 = TPPCodeResult.file_type c2
      \<and> category c1 = category c2)"

fun tuple_lt :: "npfloat \<times> TPPCodeResult \<Rightarrow> npfloat \<times> TPPCodeResult \<Rightarrow> error + bool" where
  "tuple_lt (s1, c1) (s2, c2) =
     (if np_eq s1 s2 then (if chunk_eq c1 c2 then Inr False else Inl TypeError)
      else Inr (np_lt s1 s2))"

text \<open>
  \<open>list.sort\<close> as CPython 3.7 to 3.12 runs it on a list of fewer than 64 elements, with a
  comparison \<open>lt\<close> that may raise.  \<open>count_run\<close> measures the run the list begins with:
  descending when the second element is smaller than the first (then it goes on while each
  element is smaller than the one before), ascending otherwise (then it goes on until an
  element is smaller than the one before).
\<close>

fun count_desc :: "('a \<Rightarrow> 'a \<Rightarrow> error + bool) \<Rightarrow> 'a \<Rightarrow> 'a list \<Rightarrow> error + nat" where
  "count_desc lt prev [] = Inr 0"
| "count_desc lt prev (x # xs) =
     (case lt x prev of
        Inl e \<Rightarrow> Inl e
      | Inr True \<Rightarrow> (case count_desc lt x xs of Inl e \<Rightarrow> Inl e | Inr n \<Rightarrow> Inr (Suc n))
      | Inr False \<Rightarrow> Inr 0)"

fun count_asc :: "('a \<Rightarrow> 'a \<Rightarrow> error + bool) \<Rightarrow> 'a \<Rightarrow> 'a list \<Rightarrow> error + nat" where
  "count_asc lt prev [] = Inr 0"
| "count_asc lt prev (x # xs) =
     (case lt x prev of
        Inl e \<Rightarrow> Inl e
      | Inr True \<Rightarrow> Inr 0
      | Inr False \<Rightarrow> (case count_asc lt x xs of Inl e \<Rightarrow> Inl e | Inr n \<Rightarrow> Inr (Suc n)))"

fun count_run :: "('a \<Rightarrow> 'a \<Rightarrow> error + bool) \<Rightarrow> 'a list \<Rightarrow> error + nat \<times> bool" where
  "count_run lt [] = Inr (0, False)"
| "count_run lt [x] = Inr (1, False)"
| "count_run lt (x # y # rest) =
     (case lt y x of
        Inl e \<Rightarrow> Inl e
      | Inr True \<Rightarrow>
          (case count_desc lt y rest of Inl e \<Rightarrow> Inl e | Inr n \<Rightarrow> Inr (n + 2, True))
      | Inr False \<Rightarrow>
          (case count_asc lt y rest of Inl e \<Rightarrow> Inl e | Inr n \<Rightarrow> Inr (n + 2, False)))"

text \<open>
  \<open>binarysort\<close> inserts each further element \<open>pivot\<close> into the sorted prefix \<open>a\<close>: the
  bisection keeps \<open>l\<close> and \<open>r\<close>, compares the pivot with the middle element and ends with the
  place behind every element the pivot is not smaller than.  The index read is below \<open>r\<close>,
  which never exceeds the length of \<open>a\<close>.
\<close>

function bisect :: "('a \<Rightarrow> 'a \<Rightarrow> error + bool) \<Rightarrow> 'a \<Rightarrow> 'a list \<Rightarrow> nat \<Rightarrow> nat \<Rightarrow> error + nat" where
  "bisect lt pivot a l r =
     (if l < r then
        (case lt pivot (a ! (l + (r - l) div 2)) of
           Inl e \<Rightarrow> Inl e
         | Inr True \<Rightarrow> bisect lt pivot a l (l + (r - l) div 2)
         | Inr False \<Rightarrow> bisect lt pivot a (Suc (l + (r - l) div 2)) r)
      else Inr l)"
  by pat_completeness auto
termination
  by (relation "measure (\<lambda>(lt, pivot, a, l, r). r - l)") auto

fun binarysort :: "('a \<Rightarrow> 'a \<Rightarrow> error + bool) \<Rightarrow> 'a list \<Rightarrow> 'a list \<Rightarrow> error + 'a list" where
  "binarysort lt a [] = Inr a"
| "binarysort lt a (pivot # rest) =
     (case bisect lt pivot a 0 (length a) of
        Inl e \<Rightarrow> Inl e
      | Inr l \<Rightarrow> binarysort lt (take l a @ pivot # drop l a) rest)"

text \<open>A list of fewer than 64 elements is one run: the run it begins with, reversed when
  descending, extended by binary insertion of all further elements.\<close>

definition short_sort :: "('a \<Rightarrow> 'a \<Rightarrow> error + bool) \<Rightarrow> 'a list \<Rightarrow> error + 'a list" where
  "short_sort lt xs =
     (if length xs < 2 then Inr xs
      else
        (case count_run lt xs of
           Inl e \<Rightarrow> Inl e
         | Inr (n, descending) \<Rightarrow>
             binarysort lt (if descending then rev (take n xs) else take n xs) (drop n xs)))"

text \<open>
  With \<open>reverse=True\<close> the list is reversed before and after sorting.  For 64 elements and
  more CPython cuts the list into runs and merges them; that part of the library is the
  parameter \<open>long_sort\<close>.
\<close>

definition list_sort_reverse :: "(('a \<Rightarrow> 'a \<Rightarrow> error + bool) \<Rightarrow> 'a list \<Rightarrow> error + 'a list)
    \<Rightarrow> ('a \<Rightarrow> 'a \<Rightarrow> error + bool) \<Rightarrow> 'a list \<Rightarrow> error + 'a list" where
  "list_sort_reverse long_sort lt xs =
     (case (if length xs < 64 then short_sort lt (rev xs) else long_sort lt (rev xs)) of
        Inl e \<Rightarrow> Inl e
      | Inr ys \<Rightarrow> Inr (rev ys))"

text \<open>\<open>TPPCodeSearch.search\<close>; \<open>encode\<close> is the external sentence encoder
  (\<open>self.model.encode([query])[0]\<close>).\<close>

definition search_emb :: "'v numpy
    \<Rightarrow> ((npfloat \<times> TPPCodeResult \<Rightarrow> npfloat \<times> TPPCodeResult \<Rightarrow> error + bool)
        \<Rightarrow> (npfloat \<times> TPPCodeResult) list \<Rightarrow> error + (npfloat \<times> TPPCodeResult) list)
    \<Rightarrow> (string \<Rightarrow> 'v) \<Rightarrow> TPPCodeResult list \<Rightarrow> 'v list
    \<Rightarrow> string \<Rightarrow> int \<Rightarrow> string option
    \<Rightarrow> TPPCodeResult list \<times> (error + TPPCodeResult list)" where
  "search_emb np long_sort encode code_chunks embeddings query top_k ftype =
     (if code_chunks = [] then ([], Inr [])
      else
        (case embedding_loop np (encode query) ftype embeddings code_chunks of
           (st, Inl e) \<Rightarrow> (st, Inl e)
         | (st, Inr scores) \<Rightarrow>
             (case list_sort_reverse long_sort tuple_lt scores of
                Inl e \<Rightarrow> (st, Inl e)
              | Inr sorted_scores \<Rightarrow> (st, Inr (map snd (slice_to top_k sorted_scores))))))"


section \<open>numpy on float32 arrays\<close>

text \<open>
  The sentence encoder returns \<open>float32\<close> arrays, so each operation of lines 361--363 is an
  IEEE 754 binary32 operation: the exact result, rounded to the nearest number with a
  significand of 24 bits (a tie goes to the even significand), to an infinity from magnitude
  \<open>2^128\<close> on, and with the fixed spacing \<open>2^-149\<close> at the bottom of the range (gradual
  underflow).  \<open>round32\<close> is that rounding: \<open>ulp_exponent\<close> is the exponent of the spacing at
  \<open>x\<close>, \<open>round_even\<close> rounds to the nearest integer, ties to even.  A zero carries no sign
  here: the search divides only by a product of two norms, which is never a negative zero.
\<close>

definition round_even :: "real \<Rightarrow> int" where
  "round_even r =
     (if r - of_int \<lfloor>r\<rfloor> < 1 / 2 then \<lfloor>r\<rfloor>
      else if 1 / 2 < r - of_int \<lfloor>r\<rfloor> then \<lfloor>r\<rfloor> + 1
      else if even \<lfloor>r\<rfloor> then \<lfloor>r\<rfloor> else \<lfloor>r\<rfloor> + 1)"

definition ulp_exponent :: "real \<Rightarrow> int" where
  "ulp_exponent x = max (\<lfloor>log 2 \<bar>x\<bar>\<rfloor> - 23) (- 149)"

definition round32 :: "real \<Rightarrow> npfloat" where
  "round32 x =
     (if x = 0 then Fin 0
      else if 2 ^ 128 \<le> \<bar>real_of_int (round_even (x / 2 powr of_int (ulp_exponent x)))
                           * 2 powr of_int (ulp_exponent x)\<bar>
      then (if 0 < x then PosInf else NegInf)
      else Fin (of_int (round_even (x / 2 powr of_int (ulp_exponent x)))
                * 2 powr of_int (ulp_exponent x)))"

text \<open>Sum, product, quotient and square root of two scalars, with the infinities and NaN.\<close>

fun f32_add :: "npfloat \<Rightarrow> npfloat \<Rightarrow> npfloat" where
  "f32_add (Fin a) (Fin b) = round32 (a + b)"
| "f32_add NaN _ = NaN"
| "f32_add _ NaN = NaN"
| "f32_add PosInf NegInf = NaN"
| "f32_add NegInf PosInf = NaN"
| "f32_add PosInf _ = PosInf"
| "f32_add _ PosInf = PosInf"
| "f32_add NegInf _ = NegInf"
| "f32_add _ NegInf = NegInf"

fun f32_mul :: "npfloat \<Rightarrow> npfloat \<Rightarrow> npfloat" where
  "f32_mul (Fin a) (Fin b) = round32 (a * b)"
| "f32_mul NaN _ = NaN"
| "f32_mul _ NaN = NaN"
| "f32_mul (Fin a) PosInf = (if a = 0 then NaN else if 0 < a then PosInf else NegInf)"
| "f32_mul (Fin a) NegInf = (if a = 0 then NaN else if 0 < a then NegInf else PosInf)"
| "f32_mul PosInf (Fin b) = (if b = 0 then NaN else if 0 < b then PosInf else NegInf)"
| "f32_mul NegInf (Fin b) = (if b = 0 then NaN else if 0 < b then NegInf else PosInf)"
| "f32_mul PosInf PosInf = PosInf"
| "f32_mul PosInf NegInf = NegInf"
| "f32_mul NegInf PosInf = NegInf"
| "f32_mul NegInf NegInf = PosInf"

fun f32_div :: "npfloat \<Rightarrow> npfloat \<Rightarrow> npfloat" where
  "f32_div (Fin a) (Fin b) =
     (if b \<noteq> 0 then round32 (a / b)
      else if a = 0 then NaN
      else if 0 < a then PosInf else NegInf)"
| "f32_div NaN _ = NaN"
| "f32_div _ NaN = NaN"
| "f32_div (Fin a) _ = Fin 0"
| "f32_div PosInf (Fin b) = (if 0 \<le> b then PosInf else NegInf)"
| "f32_div NegInf (Fin b) = (if 0 \<le> b then NegInf else PosInf)"
| "f32_div _ _ = NaN"

fun f32_sqrt :: "npfloat \<Rightarrow> npfloat" where
  "f32_sqrt (Fin a) = (if a < 0 then NaN else round32 (sqrt a))"
| "f32_sqrt PosInf = PosInf"
| "f32_sqrt _ = NaN"

text \<open>
  A vector is the list of its components, each a \<open>float32\<close> number.  \<open>np.dot\<close> on two
  one-dimensional arrays raises when their lengths differ; numpy's own loop adds the rounded
  products from left to right to a \<open>float32\<close> accumulator that starts at zero.  (A BLAS
  library may add in another order or fuse a product with a sum; where every product and
  every partial sum is exact, and for one-element vectors, the result is the same.)
  \<open>np.linalg.norm\<close> of a real vector is the square root of its dot product with itself.
\<close>

fun dot_loop :: "npfloat \<Rightarrow> real list \<Rightarrow> real list \<Rightarrow> npfloat" where
  "dot_loop tmp (x # xs) (y # ys) = dot_loop (f32_add tmp (round32 (x * y))) xs ys"
| "dot_loop tmp _ _ = tmp"

definition f32_dot :: "real list \<Rightarrow> real list \<Rightarrow> error + npfloat" where
  "f32_dot u v = (if length u \<noteq> length v then Inl ValueError else Inr (dot_loop (Fin 0) u v))"

definition f32_norm :: "real list \<Rightarrow> npfloat" where
  "f32_norm v = f32_sqrt (dot_loop (Fin 0) v v)"

definition f32_numpy :: "real list numpy" where
  "f32_numpy = \<lparr>np_dot = f32_dot, np_norm = f32_norm, np_mul = f32_mul, np_div = f32_div\<rparr>"

section \<open>Text helpers and regular expressions\<close>

definition newline :: char where
  "newline = CHR 0x0A"

text \<open>\<open>content.split('\n')\<close>: the pieces between newlines, empty ones included.\<close>

fun split_lines :: "string \<Rightarrow> string list" where
  "split_lines [] = [[]]"
| "split_lines (c # cs) =
     (if c = newline then [] # split_lines cs
      else (case split_lines cs of [] \<Rightarrow> [[c]] | l # ls \<Rightarrow> (c # l) # ls))"

text \<open>\<open>'\n'.join(ls)\<close>.\<close>

fun join_lines :: "string list \<Rightarrow> string" where
  "join_lines [] = []"
| "join_lines [l] = l"
| "join_lines (l # ls) = l @ newline # join_lines ls"





text \<open>
  The patterns of the two programs are sequences of the following pieces: a literal, an
  alternation of literals, one character of a class, a greedy repetition of a class (with a
  least and an optional greatest count), a capturing group around one of these, and the end
  anchor \<open>$\<close>.  Classes are predicates on characters.
\<close>

datatype atom =
    Lit string
  | Alt "string list"
  | Cls "char \<Rightarrow> bool"
  | Rep "char \<Rightarrow> bool" nat "nat option"
  | Grp atom
  | Eol

text \<open>Under \<open>re.IGNORECASE\<close> literals are compared up to case.\<close>

definition lit_match :: "bool \<Rightarrow> string \<Rightarrow> string \<Rightarrow> bool" where
  "lit_match ic l s = (if ic then prefix (lower l) (lower s) else prefix l s)"

text \<open>
  The ways one piece can match at the head of \<open>s\<close>, in the order a backtracking matcher
  tries them: the number of characters consumed and the groups captured.  A greedy repetition
  tries the longest run first.
\<close>

primrec atom_options :: "bool \<Rightarrow> atom \<Rightarrow> string \<Rightarrow> (nat \<times> string list) list" where
  "atom_options ic (Lit l) s = (if lit_match ic l s then [(length l, [])] else [])"
| "atom_options ic (Alt ls) s =
     concat (map (\<lambda>l. if lit_match ic l s then [(length l, [])] else []) ls)"
| "atom_options ic (Cls p) s =
     (case s of [] \<Rightarrow> [] | c # _ \<Rightarrow> if p c then [(1, [])] else [])"
| "atom_options ic (Rep p lo hi) s =
     map (\<lambda>n. (n, []))
       (rev [lo ..< Suc (case hi of None \<Rightarrow> length (takeWhile p s)
                                | Some h \<Rightarrow> min h (length (takeWhile p s)))])"
| "atom_options ic (Grp a) s = map (\<lambda>(n, gs). (n, take n s # gs)) (atom_options ic a s)"
| "atom_options ic Eol s = (if s = [] \<or> s = [newline] then [(0, [])] else [])"

fun first_some :: "('a \<Rightarrow> 'b option) \<Rightarrow> 'a list \<Rightarrow> 'b option" where
  "first_some f [] = None"
| "first_some f (x # xs) = (case f x of Some y \<Rightarrow> Some y | None \<Rightarrow> first_some f xs)"

text \<open>Matching a pattern at the head of \<open>s\<close>: the first way, in backtracking order, in
  which all pieces match; it gives the length of the match and its groups.\<close>

primrec match_here :: "bool \<Rightarrow> atom list \<Rightarrow> string \<Rightarrow> (nat \<times> string list) option" where
  "match_here ic [] s = Some (0, [])"
| "match_here ic (a # as) s =
     first_some
       (\<lambda>(n, gs). case match_here ic as (drop n s) of
                     None \<Rightarrow> None
                   | Some (m, gs') \<Rightarrow> Some (n + m, gs @ gs'))
       (atom_options ic a s)"






section \<open>Extractors of the keyword engine\<close>











section \<open>Extractors of the embedding engine\<close>













text \<open>
  A decoded JSON document as Python holds it: a \<open>dict\<close> is the list of its items in
  insertion order.  \<open>json.loads\<close> and \<open>json.dumps(_, indent=2)\<close> are library functions and
  enter the extractor as the parameters \<open>loads\<close> and \<open>dumps\<close>; \<open>loads\<close> returns \<open>Inl\<close> where
  the library raises.
\<close>

datatype json =
    JNull
  | JBool bool
  | JNumber string
  | JString string
  | JList "json list"
  | JDict "(string \<times> json) list"

definition json_chunk :: "(json \<Rightarrow> string) \<Rightarrow> string \<Rightarrow> string \<Rightarrow> string \<times> json
    \<Rightarrow> TPPCodeResult" where
  "json_chunk dumps path cat kv =
     (case kv of
        (key, val) \<Rightarrow>
          \<lparr>name = ''config-'' @ key,
           file_path = path,
           line_number = 1,
           code = [CHR 0x22] @ key @ [CHR 0x22] @ '': '' @ take 300 (dumps val),
           score = Fin 0,
           file_type = ''json'',
           category = cat\<rparr>)"

definition extract_json_structure :: "(string \<Rightarrow> error + json) \<Rightarrow> (json \<Rightarrow> string)
    \<Rightarrow> string \<Rightarrow> string \<Rightarrow> error + string \<Rightarrow> TPPCodeResult list" where
  "extract_json_structure loads dumps path cat rd =
     (case rd of
        Inl e \<Rightarrow> []
      | Inr src \<Rightarrow>
          (case loads src of
             Inl e \<Rightarrow> []
           | Inr (JDict items) \<Rightarrow> map (json_chunk dumps path cat) items
           | Inr _ \<Rightarrow> []))"

text \<open>Markdown: the header pattern \<open>^(#{1,6})\s+(.+)$\<close>, matched against one line.\<close>

definition header_pattern :: "atom list" where
  "header_pattern =
     [Grp (Rep (\<lambda>c. c = CHR ''#'') 1 (Some 6)), Rep isspace 1 None,
      Grp (Rep (\<lambda>c. c \<noteq> newline) 1 None), Eol]"

text \<open>The inner loop of lines 325--330 stops at the next header of the same or a higher
  level.\<close>

definition closes_section :: "nat \<Rightarrow> string \<Rightarrow> bool" where
  "closes_section level next_line =
     (case match_here False header_pattern next_line of
        Some (n, hashes # _) \<Rightarrow> length hashes \<le> level
      | _ \<Rightarrow> False)"

fun md_loop :: "string \<Rightarrow> string \<Rightarrow> nat \<Rightarrow> string list \<Rightarrow> TPPCodeResult list" where
  "md_loop path cat i [] = []"
| "md_loop path cat i (line # rest) =
     (case match_here False header_pattern line of
        Some (n, [hashes, title]) \<Rightarrow>
          \<lparr>name = ''doc-'' @ title,
           file_path = path,
           line_number = int i + 1,
           code = join_lines
             (take 20 (line # takeWhile (\<lambda>l. \<not> closes_section (length hashes) l) rest)),
           score = Fin 0,
           file_type = ''md'',
           category = cat\<rparr> # md_loop path cat (Suc i) rest
      | _ \<Rightarrow> md_loop path cat (Suc i) rest)"

definition extract_md_sections :: "string \<Rightarrow> string \<Rightarrow> error + string
    \<Rightarrow> TPPCodeResult list" where
  "extract_md_sections path cat rd =
     (case rd of Inl e \<Rightarrow> [] | Inr src \<Rightarrow> md_loop path cat 0 (split_lines src))"

section \<open>Brace depth\<close>


section \<open>Example inputs\<close>






text \<open>A document with the same heading on lines 1 and 2.\<close>

definition twin_doc :: string where
  "twin_doc = ''# A'' @ [newline] @ ''# A''"

text \<open>The configuration scenario \<open>{"site": {}, "theme": null}\<close>, with the decoder and the
  serialiser restricted to what it needs.\<close>

definition config_text :: string where
  "config_text =
     ''{'' @ [CHR 0x22] @ ''site'' @ [CHR 0x22] @ '': {}, '' @ [CHR 0x22] @ ''theme''
     @ [CHR 0x22] @ '': null}''"

definition config_loads :: "string \<Rightarrow> error + json" where
  "config_loads s =
     (if s = config_text then Inr (JDict [(''site'', JDict []), (''theme'', JNull)])
      else Inl JSONDecodeError)"

fun config_dumps :: "json \<Rightarrow> string" where
  "config_dumps JNull = ''null''"
| "config_dumps (JDict []) = ''{}''"
| "config_dumps _ = ''?''"


section \<open>The scoring rule in the words of the specification\<close>

text \<open>
  The claim's rule: the haystack is the lowercased name followed by the content; each query
  term found in it counts 1.0, and 2.0 more when the term is also found in the lowercased
  name; the score is the sum over the terms divided by their number.
\<close>

definition claim_points :: "SearchResult \<Rightarrow> string \<Rightarrow> real" where
  "claim_points chunk w =
     (if sublist w (lower (SearchResult.name chunk @ content chunk)) then 1 else 0)
     + (if sublist w (lower (SearchResult.name chunk @ content chunk))
           \<and> sublist w (lower (SearchResult.name chunk)) then 2 else 0)"

definition claim_score :: "string list \<Rightarrow> SearchResult \<Rightarrow> real" where
  "claim_score ws chunk = sum_list (map (claim_points chunk) ws) / real (length ws)"

text \<open>
  The same rule with the haystack the code builds: the lowercased name, one blank, the
  lowercased content.  It is written out here, not taken from the code's definitions, and
  compared with the loops of the code below.
\<close>

definition blank_points :: "SearchResult \<Rightarrow> string \<Rightarrow> real" where
  "blank_points chunk w =
     (if sublist w (lower (SearchResult.name chunk) @ '' '' @ lower (content chunk)) then 1 else 0)
     + (if sublist w (lower (SearchResult.name chunk) @ '' '' @ lower (content chunk))
           \<and> sublist w (lower (SearchResult.name chunk)) then 2 else 0)"

definition blank_score :: "string list \<Rightarrow> SearchResult \<Rightarrow> real" where
  "blank_score ws chunk = sum_list (map (blank_points chunk) ws) / real (length ws)"

section \<open>Properties of the keyword engine\<close>

lemma split_acc_blank:
  "\<forall>c \<in> set s. isspace c \<Longrightarrow> split_acc [] s = []"
  by (induction s) auto

lemma lower_char_space: "isspace (lower_char c) = isspace c"
  by (auto simp: lower_char_def isspace_def)

lemma split_lower_blank:
  assumes "\<forall>c \<in> set q. isspace c"
  shows "split (lower q) = []"
  using assms by (simp add: split_def lower_def split_acc_blank lower_char_space)

lemma chunk_loop_no_words:
  "chunk_loop [] ftype chunks = (chunks, Inr [])"
  by (induction chunks) (auto simp: raw_score_def)

lemma haystack_blank:
  "haystack chunk = lower (SearchResult.name chunk) @ '' '' @ lower (content chunk)"
  by (simp add: haystack_def lower_def lower_char_def)

lemma word_loop_sum: "word_loop chunk ws sc = sc + sum_list (map (blank_points chunk) ws)"
  by (induction ws arbitrary: sc) (auto simp: blank_points_def str_in_def haystack_blank)

lemma raw_score_blank:
  "raw_score ws chunk / real (length ws) = blank_score ws chunk"
  by (simp add: raw_score_def blank_score_def word_loop_sum)

lemma blank_points_nonneg: "0 \<le> blank_points chunk w"
  by (simp add: blank_points_def)

lemma blank_sum_nonneg: "0 \<le> sum_list (map (blank_points chunk) ws)"
  by (induction ws) (auto simp: blank_points_nonneg)

lemma blank_sum_zero_iff:
  "sum_list (map (blank_points chunk) ws) = 0
     \<longleftrightarrow> (\<forall>w \<in> set ws.
            \<not> sublist w (lower (SearchResult.name chunk) @ '' '' @ lower (content chunk)))"
proof (induction ws)
  case Nil
  then show ?case by simp
next
  case (Cons w ws)
  have nn: "0 \<le> sum_list (map (blank_points chunk) ws)" by (rule blank_sum_nonneg)
  have tp: "0 \<le> blank_points chunk w" by (rule blank_points_nonneg)
  have tz: "blank_points chunk w = 0
      \<longleftrightarrow> \<not> sublist w (lower (SearchResult.name chunk) @ '' '' @ lower (content chunk))"
    by (simp add: blank_points_def)
  show ?case using nn tp tz Cons.IH by (auto simp: add_nonneg_eq_0_iff)
qed

lemma blank_score_nonneg: "0 \<le> blank_score ws chunk"
  by (simp add: blank_score_def blank_sum_nonneg)

lemma blank_score_zero_iff:
  assumes "ws \<noteq> []"
  shows "blank_score ws chunk = 0
     \<longleftrightarrow> (\<forall>w \<in> set ws.
            \<not> sublist w (lower (SearchResult.name chunk) @ '' '' @ lower (content chunk)))"
  using assms blank_sum_zero_iff[of chunk ws] by (simp add: blank_score_def)

lemma raw_positive_iff:
  assumes "ws \<noteq> []"
  shows "(0 < raw_score ws c) = (blank_score ws c \<noteq> 0)"
  using assms blank_sum_nonneg[of c ws]
  by (auto simp: raw_score_def word_loop_sum blank_score_def)

lemma chunk_loop_spec:
  assumes "ws \<noteq> []"
  shows "chunk_loop ws ftype chunks =
    (map (\<lambda>c. if \<not> skipped ftype (SearchResult.file_type c) \<and> blank_score ws c \<noteq> 0
               then c\<lparr>SearchResult.score := blank_score ws c\<rparr> else c) chunks,
     Inr (map (\<lambda>c. c\<lparr>SearchResult.score := blank_score ws c\<rparr>)
            (filter (\<lambda>c. \<not> skipped ftype (SearchResult.file_type c) \<and> blank_score ws c \<noteq> 0)
               chunks)))"
proof (induction chunks)
  case Nil
  then show ?case by simp
next
  case (Cons c cs)
  have d: "py_div (raw_score ws c) (length ws) = Inr (blank_score ws c)"
    using assms by (simp add: py_div_def raw_score_blank)
  show ?case using Cons raw_positive_iff[OF assms, of c] d by simp
qed

lemma chunk_loop_Inr: "\<exists>rs. snd (chunk_loop ws ftype chunks) = Inr rs"
proof (cases "ws = []")
  case True
  then show ?thesis by (simp add: chunk_loop_no_words)
next
  case False
  then show ?thesis by (simp add: chunk_loop_spec)
qed

lemma sort_rev_stable:
  fixes f :: "'a \<Rightarrow> real"
  shows "rev (sort_key f (rev xs)) = sort_key (\<lambda>x. - f x) xs"
proof (rule properties_for_sort_key [symmetric])
  show "mset (rev (sort_key f (rev xs))) = mset xs" by simp
next
  fix k
  have "filter (\<lambda>x. f x = f k) (sort_key f (rev xs)) = filter (\<lambda>x. f x = f k) (rev xs)"
    by (rule sort_key_stable)
  then have "rev (filter (\<lambda>x. f x = f k) (sort_key f (rev xs))) = filter (\<lambda>x. f x = f k) xs"
    by (simp add: rev_filter)
  moreover have "(\<lambda>x. - f k = - f x) = (\<lambda>x. f x = f k)" by auto
  ultimately show "filter (\<lambda>x. - f k = - f x) (rev (sort_key f (rev xs)))
      = filter (\<lambda>x. - f k = - f x) xs"
    by (simp add: rev_filter)
next
  have "sorted (map f (sort_key f (rev xs)))" by simp
  then show "sorted (map (\<lambda>x. - f x) (rev (sort_key f (rev xs))))"
    by (simp add: sorted_map sorted_wrt_rev)
qed

lemma slice_to_Nil: "slice_to k [] = []"
  by (simp add: slice_to_def)

lemma chunk_loop_frame:
  "map (\<lambda>c. c\<lparr>SearchResult.score := 0\<rparr>) (fst (chunk_loop ws ftype chunks))
     = map (\<lambda>c. c\<lparr>SearchResult.score := 0\<rparr>) chunks"
proof (cases "ws = []")
  case True
  then show ?thesis by (simp add: chunk_loop_no_words)
next
  case False
  then show ?thesis by (simp add: chunk_loop_spec)
qed

lemma search_store: "fst (search code_chunks query ftype top_k)
    = fst (chunk_loop (split (lower query)) ftype code_chunks)"
  by (auto simp: search_def split: prod.splits sum.splits)

section \<open>Properties of the embedding engine\<close>

lemma embedding_loop_frame:
  "map (\<lambda>c. c\<lparr>TPPCodeResult.score := Fin 0\<rparr>) (fst (embedding_loop np q ftype es chunks))
     = map (\<lambda>c. c\<lparr>TPPCodeResult.score := Fin 0\<rparr>) chunks"
proof (induction es arbitrary: chunks)
  case Nil
  then show ?case by simp
next
  case (Cons e es)
  show ?case
  proof (cases "similarity_of np q e")
    case (Inl err)
    then show ?thesis by simp
  next
    case (Inr similarity)
    show ?thesis
    proof (cases chunks)
      case Nil
      then show ?thesis using Inr by simp
    next
      case (Cons chunk rest)
      obtain st r where l: "embedding_loop np q ftype es rest = (st, r)"
        by (cases "embedding_loop np q ftype es rest")
      have "map (\<lambda>c. c\<lparr>TPPCodeResult.score := Fin 0\<rparr>) st
          = map (\<lambda>c. c\<lparr>TPPCodeResult.score := Fin 0\<rparr>) rest"
        using Cons.IH[of rest] l by simp
      then show ?thesis using Inr Cons l by simp
    qed
  qed
qed

lemma embedding_loop_no_chunks: "fst (embedding_loop np q ftype es []) = []"
  by (cases es) (auto split: sum.splits)

lemma search_emb_store:
  "fst (search_emb np long_sort encode code_chunks embeddings query top_k ftype)
    = fst (embedding_loop np (encode query) ftype embeddings code_chunks)"
  using embedding_loop_no_chunks[of np "encode query" ftype embeddings]
  by (auto simp: search_emb_def split: prod.splits sum.splits)



lemma ulp_exponent_normal:
  assumes "2 powr of_int (e + 23) \<le> \<bar>x\<bar>" and "\<bar>x\<bar> < 2 powr of_int (e + 24)" and "- 149 \<le> e"
  shows "ulp_exponent x = e"
proof -
  have pos: "0 < \<bar>x\<bar>"
    using assms(1) powr_gt_zero[of 2 "real_of_int (e + 23)"] by linarith
  have "\<lfloor>log 2 \<bar>x\<bar>\<rfloor> = e + 23"
    using assms(1,2) pos by (subst floor_log_eq_powr_iff) (simp_all add: add.commute)
  then show ?thesis using assms(3) by (simp add: ulp_exponent_def)
qed

lemma round32_normal:
  assumes "2 powr of_int (e + 23) \<le> \<bar>x\<bar>" and "\<bar>x\<bar> < 2 powr of_int (e + 24)" and "- 149 \<le> e"
    and "round_even (x / 2 powr of_int e) = m"
    and "\<bar>real_of_int m * 2 powr of_int e\<bar> < 2 ^ 128"
  shows "round32 x = Fin (of_int m * 2 powr of_int e)"
proof -
  have u: "ulp_exponent x = e" using assms(1,2,3) by (rule ulp_exponent_normal)
  have "x \<noteq> 0"
    using assms(1) powr_gt_zero[of 2 "real_of_int (e + 23)"] by auto
  then show ?thesis using u assms(4,5) by (simp add: round32_def)
qed

lemma round32_1: "round32 1 = Fin 1"
  using round32_normal[of "-23" 1 8388608] by (simp add: round_even_def powr_minus_divide)



















section \<open>The claims about the two searches\<close>

text \<open>
  Claim C9.  Executing a search leaves the chunk store's length and order and every stored
  chunk's identity fields (name, file path, line number, content or code, file type,
  category) as they were: the store after the call differs from the store before it at most
  in the score fields.  This holds for the keyword engine and for the embedding engine
  (whatever numpy's arithmetic and the encoder return), also when the call ends in an
  exception.
\<close>
theorem search_frame:
  "map (\<lambda>c. c\<lparr>SearchResult.score := 0\<rparr>) (fst (search code_chunks query ftype top_k))
     = map (\<lambda>c. c\<lparr>SearchResult.score := 0\<rparr>) code_chunks
   \<and> map (\<lambda>c. c\<lparr>TPPCodeResult.score := Fin 0\<rparr>)
        (fst (search_emb np long_sort encode chunks embeddings query top_k ftype))
     = map (\<lambda>c. c\<lparr>TPPCodeResult.score := Fin 0\<rparr>) chunks"
  by (simp only: search_store search_emb_store chunk_loop_frame embedding_loop_frame)

text \<open>
  Claim C8.  On an empty chunk store both engines return the empty list, whatever the filter
  and \<open>top_k\<close>.  On any chunk store the keyword engine returns the empty list for a query
  made of whitespace only (the empty query included), and no call of the keyword engine ends
  in an exception: the division by the number of query terms is only reached with a positive
  raw score, hence with at least one term.
\<close>
theorem search_empty:
  "search [] query ftype top_k = ([], Inr [])
   \<and> search_emb np long_sort encode [] embeddings query top_k ftype = ([], Inr [])
   \<and> ((\<forall>c \<in> set query. isspace c) \<longrightarrow> search code_chunks query ftype top_k = (code_chunks, Inr []))
   \<and> (\<forall>e. snd (search code_chunks query ftype top_k) \<noteq> Inl e)"
proof -
  have a: "search [] query ftype top_k = ([], Inr [])" by (simp add: search_def)
  have b: "search_emb np long_sort encode [] embeddings query top_k ftype = ([], Inr [])"
    by (simp add: search_emb_def)
  have c: "search code_chunks query ftype top_k = (code_chunks, Inr [])"
    if "\<forall>c \<in> set query. isspace c"
    using split_lower_blank[OF that]
    by (simp add: search_def chunk_loop_no_words sort_by_score_reverse_def slice_to_Nil)
  have d: "snd (search code_chunks query ftype top_k) \<noteq> Inl e" for e
    using chunk_loop_Inr[of "split (lower query)" ftype code_chunks]
    by (auto simp: search_def split: prod.splits sum.splits)
  show ?thesis using a b c d by blast
qed

theorem search_empty_witness:
  "list_all isspace '' ''
   \<and> search [\<lparr>SearchResult.name = ''nav-main'', SearchResult.file_path = ''index.html'',
        SearchResult.line_number = 3, content = ''<nav id=x>'',
        SearchResult.file_type = ''html'', SearchResult.score = 0\<rparr>] '' '' None 10
     = ([\<lparr>SearchResult.name = ''nav-main'', SearchResult.file_path = ''index.html'',
        SearchResult.line_number = 3, content = ''<nav id=x>'',
        SearchResult.file_type = ''html'', SearchResult.score = 0\<rparr>], Inr [])"
proof -
  have h: "\<forall>c \<in> set '' ''. isspace c" by (simp add: isspace_def)
  show ?thesis
    using h search_empty[where query = "'' ''" and ftype = None and top_k = 10
        and code_chunks = "[\<lparr>SearchResult.name = ''nav-main'',
        SearchResult.file_path = ''index.html'',
        SearchResult.line_number = 3, content = ''<nav id=x>'',
        SearchResult.file_type = ''html'', SearchResult.score = 0\<rparr>]"
        and np = f32_numpy and long_sort = "\<lambda>lt xs. Inr xs" and encode = "\<lambda>q. []"
        and embeddings = "[]"]
    by (simp add: list_all_iff)
qed

text \<open>
  Claim C2, as the code has it.  The haystack is not the lowercased name followed by the
  content: the code puts one blank between them.  With that haystack the claim holds.  For a
  query with at least one term, the keyword engine writes to each chunk that passes the filter
  and matches, and returns with it, the sum over the query terms of 1.0 for a term found in
  the haystack plus 2.0 more when the term is found in the lowercased name, divided by the
  number of terms.  That score is never negative, it is zero exactly when no term occurs in
  the haystack, and exactly the chunks with score zero (or filtered out) are missing from the
  result list, which is sorted stably by descending score and cut by the slice \<open>[:top_k]\<close>.
\<close>
theorem lexical_score:
  assumes "split (lower query) = ws" and "ws \<noteq> []"
  shows "search code_chunks query ftype top_k =
      (map (\<lambda>c. if \<not> skipped ftype (SearchResult.file_type c) \<and> blank_score ws c \<noteq> 0
                 then c\<lparr>SearchResult.score := blank_score ws c\<rparr> else c)
         code_chunks,
       Inr (slice_to top_k (sort_key (\<lambda>c. - SearchResult.score c)
         (map (\<lambda>c. c\<lparr>SearchResult.score := blank_score ws c\<rparr>)
            (filter (\<lambda>c. \<not> skipped ftype (SearchResult.file_type c) \<and> blank_score ws c \<noteq> 0)
               code_chunks)))))
    \<and> 0 \<le> blank_score ws c
    \<and> (blank_score ws c = 0
         \<longleftrightarrow> (\<forall>w \<in> set ws.
                \<not> sublist w (lower (SearchResult.name c) @ '' '' @ lower (content c))))"
proof -
  have s: "search code_chunks query ftype top_k =
      (map (\<lambda>c. if \<not> skipped ftype (SearchResult.file_type c) \<and> blank_score ws c \<noteq> 0
                 then c\<lparr>SearchResult.score := blank_score ws c\<rparr> else c)
         code_chunks,
       Inr (slice_to top_k (sort_key (\<lambda>c. - SearchResult.score c)
         (map (\<lambda>c. c\<lparr>SearchResult.score := blank_score ws c\<rparr>)
            (filter (\<lambda>c. \<not> skipped ftype (SearchResult.file_type c) \<and> blank_score ws c \<noteq> 0)
               code_chunks)))))"
  proof (cases "code_chunks = []")
    case True
    then show ?thesis by (simp add: search_def slice_to_Nil)
  next
    case False
    then show ?thesis using assms
      by (simp add: search_def chunk_loop_spec sort_by_score_reverse_def sort_rev_stable)
  qed
  show ?thesis using s blank_score_nonneg[of ws c] blank_score_zero_iff[OF assms(2), of c]
    by blast
qed

theorem lexical_score_witness:
  "split (lower ''Nav Bar'') = [''nav'', ''bar'']
   \<and> [''nav'', ''bar''] \<noteq> ([] :: string list)
   \<and> search [\<lparr>SearchResult.name = ''nav-main'', SearchResult.file_path = ''index.html'',
        SearchResult.line_number = 3, content = ''<nav id=x>'',
        SearchResult.file_type = ''html'', SearchResult.score = 0\<rparr>] ''Nav Bar'' None 10
     = ([\<lparr>SearchResult.name = ''nav-main'', SearchResult.file_path = ''index.html'',
        SearchResult.line_number = 3, content = ''<nav id=x>'',
        SearchResult.file_type = ''html'', SearchResult.score = 3 / 2\<rparr>],
        Inr [\<lparr>SearchResult.name = ''nav-main'', SearchResult.file_path = ''index.html'',
        SearchResult.line_number = 3, content = ''<nav id=x>'',
        SearchResult.file_type = ''html'', SearchResult.score = 3 / 2\<rparr>])"
proof -
  let ?c = "\<lparr>SearchResult.name = ''nav-main'', SearchResult.file_path = ''index.html'',
        SearchResult.line_number = 3, content = ''<nav id=x>'',
        SearchResult.file_type = ''html'', SearchResult.score = 0\<rparr>"
  have h1: "split (lower ''Nav Bar'') = [''nav'', ''bar'']" by code_simp
  have h2: "[''nav'', ''bar''] \<noteq> ([] :: string list)" by simp
  have r: "blank_score [''nav'', ''bar''] ?c = 3 / 2" by code_simp
  show ?thesis
    using h1 h2 r lexical_score[OF h1 h2, of "[?c]" None 10 ?c]
    by (simp add: skipped_def slice_to_def)
qed

theorem lexical_haystack_counterexample:
  "split (lower ''nav'') = [''nav'']
   \<and> claim_score [''nav'']
        \<lparr>SearchResult.name = ''na'', SearchResult.file_path = ''index.html'',
         SearchResult.line_number = 1, content = ''v'',
         SearchResult.file_type = ''html'', SearchResult.score = 0\<rparr> = 1
   \<and> search [\<lparr>SearchResult.name = ''na'', SearchResult.file_path = ''index.html'',
         SearchResult.line_number = 1, content = ''v'',
         SearchResult.file_type = ''html'', SearchResult.score = 0\<rparr>] ''nav'' None 10
     = ([\<lparr>SearchResult.name = ''na'', SearchResult.file_path = ''index.html'',
         SearchResult.line_number = 1, content = ''v'',
         SearchResult.file_type = ''html'', SearchResult.score = 0\<rparr>], Inr [])"
proof -
  let ?c = "\<lparr>SearchResult.name = ''na'', SearchResult.file_path = ''index.html'',
         SearchResult.line_number = 1, content = ''v'',
         SearchResult.file_type = ''html'', SearchResult.score = 0\<rparr>"
  have h1: "split (lower ''nav'') = [''nav'']" by code_simp
  have c: "claim_score [''nav''] ?c = 1" by code_simp
  have r: "raw_score [''nav''] ?c = 0" by code_simp
  have "search [?c] ''nav'' None 10 = ([?c], Inr [])"
    using h1 r by (simp add: search_def skipped_def sort_by_score_reverse_def slice_to_def)
  then show ?thesis using h1 c by simp
qed

text \<open>
  The keyword engine orders its results as the specification asks: the candidates, in store
  order, sorted stably by descending score, then cut by the slice \<open>[:top_k]\<close>.
\<close>

lemma lexical_results_stable_descending:
  assumes "snd (chunk_loop (split (lower query)) ftype code_chunks) = Inr results"
  shows "snd (search code_chunks query ftype top_k)
      = Inr (slice_to top_k (sort_key (\<lambda>c. - SearchResult.score c) results))"
proof (cases "code_chunks = []")
  case True
  then show ?thesis using assms by (simp add: search_def slice_to_Nil)
next
  case False
  then show ?thesis using assms
    by (auto simp: search_def sort_by_score_reverse_def sort_rev_stable split: prod.splits sum.splits)
qed

text \<open>
  Claim C1.  The embedding engine does not return a stably sorted list when two different
  chunks tie.  Take a store of two chunks with one and the same embedding, hence one and the
  same similarity \<open>s\<close>, whatever numpy's arithmetic and the encoder are; let \<open>s\<close> be a number
  or an infinity (it equals itself) and let the two chunks differ in a field.  Then the sort
  compares the tuples, finds the similarities equal and the chunks unequal, compares the two
  chunks with \<open><\<close> and the call ends in \<open>TypeError\<close>, with both scores already written.  The
  claim asks for both chunks in store order.
\<close>
theorem embedding_search_tie_raises:
  assumes "similarity_of np (encode query) e = Inr s"
    and "np_eq s s"
    and "\<not> chunk_eq (a\<lparr>TPPCodeResult.score := s\<rparr>) (b\<lparr>TPPCodeResult.score := s\<rparr>)"
  shows "search_emb np long_sort encode [a, b] [e, e] query top_k None
     = ([a\<lparr>TPPCodeResult.score := s\<rparr>, b\<lparr>TPPCodeResult.score := s\<rparr>], Inl TypeError)"
  using assms
  by (simp add: search_emb_def skipped_def list_sort_reverse_def short_sort_def)

theorem embedding_search_tie_raises_witness:
  "similarity_of f32_numpy [1] [1] = Inr (Fin 1)
   \<and> np_eq (Fin 1) (Fin 1)
   \<and> extract_md_sections ''README.md'' ''Documentation'' (Inr twin_doc) =
       [\<lparr>name = ''doc-A'', file_path = ''README.md'', line_number = 1, code = ''# A'',
          score = Fin 0, file_type = ''md'', category = ''Documentation''\<rparr>,
        \<lparr>name = ''doc-A'', file_path = ''README.md'', line_number = 2, code = ''# A'',
          score = Fin 0, file_type = ''md'', category = ''Documentation''\<rparr>]
   \<and> \<not> chunk_eq
         \<lparr>name = ''doc-A'', file_path = ''README.md'', line_number = 1, code = ''# A'',
          score = Fin 1, file_type = ''md'', category = ''Documentation''\<rparr>
         \<lparr>name = ''doc-A'', file_path = ''README.md'', line_number = 2, code = ''# A'',
          score = Fin 1, file_type = ''md'', category = ''Documentation''\<rparr>
   \<and> search_emb f32_numpy (\<lambda>lt xs. Inr xs) (\<lambda>q. [1])
       [\<lparr>name = ''doc-A'', file_path = ''README.md'', line_number = 1, code = ''# A'',
          score = Fin 0, file_type = ''md'', category = ''Documentation''\<rparr>,
        \<lparr>name = ''doc-A'', file_path = ''README.md'', line_number = 2, code = ''# A'',
          score = Fin 0, file_type = ''md'', category = ''Documentation''\<rparr>]
       [[1], [1]] ''a'' 10 None
     = ([\<lparr>name = ''doc-A'', file_path = ''README.md'', line_number = 1, code = ''# A'',
          score = Fin 1, file_type = ''md'', category = ''Documentation''\<rparr>,
         \<lparr>name = ''doc-A'', file_path = ''README.md'', line_number = 2, code = ''# A'',
          score = Fin 1, file_type = ''md'', category = ''Documentation''\<rparr>],
        Inl TypeError)"
proof -
  let ?a = "\<lparr>name = ''doc-A'', file_path = ''README.md'', line_number = 1, code = ''# A'',
          score = Fin 0, file_type = ''md'', category = ''Documentation''\<rparr>"
  let ?b = "\<lparr>name = ''doc-A'', file_path = ''README.md'', line_number = 2, code = ''# A'',
          score = Fin 0, file_type = ''md'', category = ''Documentation''\<rparr>"
  have s: "similarity_of f32_numpy ((\<lambda>q. [1]) ''a'') [1] = Inr (Fin 1)"
    by (simp add: similarity_of_def f32_numpy_def f32_dot_def f32_norm_def round32_1)
  have e: "np_eq (Fin 1) (Fin 1)" by simp
  have d: "\<not> chunk_eq (?a\<lparr>TPPCodeResult.score := Fin 1\<rparr>) (?b\<lparr>TPPCodeResult.score := Fin 1\<rparr>)"
    by (simp add: chunk_eq_def)
  have x: "extract_md_sections ''README.md'' ''Documentation'' (Inr twin_doc) = [?a, ?b]"
    by code_simp
  show ?thesis
    using s e d x
      embedding_search_tie_raises[OF s e d, where long_sort = "\<lambda>lt xs. Inr xs" and top_k = 10]
    by simp
qed



section \<open>Properties of the matcher\<close>































section \<open>Properties of the extractors\<close>








lemma json_code:
  assumes "c \<in> set (extract_json_structure loads dumps path cat rd)"
  shows "\<exists>key val. name c = ''config-'' @ key \<and> line_number c = 1
     \<and> code c = [CHR 0x22] @ key @ [CHR 0x22] @ '': '' @ take 300 (dumps val)"
  using assms
  by (auto simp: extract_json_structure_def json_chunk_def
      split: sum.splits json.splits)

























text \<open>
  Claim C7, as the code has it.  The structured-data extractor returns a list of chunks in
  every case, so nothing is raised outward.  A file that cannot be read or whose text the
  decoder rejects gives no chunk.  A text decoded to an object gives one chunk per item of
  the object, in order, named \<open>config-<key>\<close>; the keys of an object being distinct, so are
  the names.  A text decoded to anything else gives no chunk.  The content of a chunk is not
  the serialised value alone: it is the key in double quotes, a colon and a blank, and then
  the first 300 characters of the serialised value.
\<close>
theorem json_extraction:
  "extract_json_structure loads dumps path cat (Inl e) = []
   \<and> (loads src = Inl e' \<longrightarrow> extract_json_structure loads dumps path cat (Inr src) = [])
   \<and> (loads src = Inr (JDict items) \<longrightarrow>
        length (extract_json_structure loads dumps path cat (Inr src)) = length items
        \<and> map name (extract_json_structure loads dumps path cat (Inr src))
            = map (\<lambda>(k, v). ''config-'' @ k) items
        \<and> map code (extract_json_structure loads dumps path cat (Inr src))
            = map (\<lambda>(k, v). [CHR 0x22] @ k @ [CHR 0x22] @ '': '' @ take 300 (dumps v)) items
        \<and> (distinct (map fst items)
             \<longrightarrow> distinct (map name (extract_json_structure loads dumps path cat (Inr src)))))
   \<and> (loads src = Inr d \<and> (\<forall>items. d \<noteq> JDict items)
        \<longrightarrow> extract_json_structure loads dumps path cat (Inr src) = [])"
proof -
  have a: "extract_json_structure loads dumps path cat (Inl e) = []"
    by (simp add: extract_json_structure_def)
  have b: "extract_json_structure loads dumps path cat (Inr src) = []" if "loads src = Inl e'"
    using that by (simp add: extract_json_structure_def)
  have c: "extract_json_structure loads dumps path cat (Inr src)
      = map (json_chunk dumps path cat) items" if "loads src = Inr (JDict items)"
    using that by (simp add: extract_json_structure_def)
  have c1: "map name (map (json_chunk dumps path cat) items) = map (\<lambda>(k, v). ''config-'' @ k) items"
    by (induction items) (auto simp: json_chunk_def)
  have c2: "map code (map (json_chunk dumps path cat) items)
      = map (\<lambda>(k, v). [CHR 0x22] @ k @ [CHR 0x22] @ '': '' @ take 300 (dumps v)) items"
    by (induction items) (auto simp: json_chunk_def)
  have c3: "distinct (map (\<lambda>(k, v). ''config-'' @ k) items)" if "distinct (map fst items)"
  proof -
    have "map (\<lambda>(k, v). ''config-'' @ k) items = map ((@) ''config-'') (map fst items)"
      by (induction items) auto
    moreover have "inj_on ((@) ''config-'') (set (map fst items))" by (simp add: inj_on_def)
    ultimately show ?thesis using that by (simp only: distinct_map)
  qed
  have d: "extract_json_structure loads dumps path cat (Inr src) = []"
    if "loads src = Inr d" "\<forall>items. d \<noteq> JDict items"
    using that by (cases d) (simp_all add: extract_json_structure_def)
  show ?thesis using a b c c1 c2 c3 d by (auto simp del: map_map)
qed

theorem json_extraction_witness:
  "config_loads config_text = Inr (JDict [(''site'', JDict []), (''theme'', JNull)])
   \<and> distinct (map fst [(''site'', JDict []), (''theme'', JNull)])
   \<and> map name (extract_json_structure config_loads config_dumps ''config.json''
        ''Configuration'' (Inr config_text)) = [''config-site'', ''config-theme'']
   \<and> length (extract_json_structure config_loads config_dumps ''config.json''
        ''Configuration'' (Inr config_text)) = 2
   \<and> config_loads ''{'' = Inl JSONDecodeError
   \<and> extract_json_structure config_loads config_dumps ''config.json''
        ''Configuration'' (Inr ''{'') = []"
proof -
  have l: "config_loads config_text = Inr (JDict [(''site'', JDict []), (''theme'', JNull)])"
    by (simp add: config_loads_def)
  have f: "config_loads ''{'' = Inl JSONDecodeError" by code_simp
  note t = json_extraction[where loads = config_loads and dumps = config_dumps
      and path = "''config.json''" and cat = "''Configuration''"]
  note ok = t[where src = config_text, THEN conjunct2, THEN conjunct2, THEN conjunct1,
      rule_format, OF l]
  note bad = t[where src = "''{''", THEN conjunct2, THEN conjunct1, rule_format, OF f]
  show ?thesis using l f ok bad by simp
qed

theorem json_content_counterexample:
  "config_loads config_text = Inr (JDict [(''site'', JDict []), (''theme'', JNull)])
   \<and> map (\<lambda>(k, v). take 300 (config_dumps v)) [(''site'', JDict []), (''theme'', JNull)]
       = [''{}'', ''null'']
   \<and> map code (extract_json_structure config_loads config_dumps ''config.json''
        ''Configuration'' (Inr config_text))
       = [[CHR 0x22] @ ''site'' @ [CHR 0x22] @ '': {}'',
          [CHR 0x22] @ ''theme'' @ [CHR 0x22] @ '': null'']"
  by code_simp

text \<open>
  Claim C10.  Every chunk of the structured-data extractor has line number 1, whatever the
  text, the decoder and the position of the key in the file.
\<close>
theorem json_chunks_on_line_one:
  "\<forall>c \<in> set (extract_json_structure loads dumps path cat rd). line_number c = 1"
  using json_code[of _ loads dumps path cat rd] by blast

theorem json_chunks_on_line_one_witness:
  "map line_number (extract_json_structure config_loads config_dumps ''config.json''
        ''Configuration'' (Inr config_text)) = [1, 1]"
proof -
  have a: "extract_json_structure config_loads config_dumps ''config.json''
        ''Configuration'' (Inr config_text) =
     [\<lparr>name = ''config-site'', file_path = ''config.json'', line_number = 1,
       code = [CHR 0x22] @ ''site'' @ [CHR 0x22] @ '': {}'', score = Fin 0,
       file_type = ''json'', category = ''Configuration''\<rparr>,
      \<lparr>name = ''config-theme'', file_path = ''config.json'', line_number = 1,
       code = [CHR 0x22] @ ''theme'' @ [CHR 0x22] @ '': null'', score = Fin 0,
       file_type = ''json'', category = ''Configuration''\<rparr>]"
    by code_simp
  show ?thesis
    using json_chunks_on_line_one[of config_loads config_dumps "''config.json''"
        "''Configuration''" "Inr config_text"]
    unfolding a by simp
qed

end
